theory Spec2Isabelle
  imports Main
begin

section \<open>Data model\<close>

text \<open>
  The job-board backend of \<^verbatim>\<open>src/api/routers/job_router.py\<close> and
  \<^verbatim>\<open>src/applications/dependencies/user.py\<close>. Python \<^verbatim>\<open>str\<close> values are
  modelled as \<^typ>\<open>string\<close> holding the UTF-8 bytes of the text (the messages of the
  source are Russian, so their literals are written as byte lists); Python's unbounded
  \<^verbatim>\<open>int\<close> is \<^typ>\<open>int\<close>.
\<close>

text \<open>
  Modelled from the spec: \<^verbatim>\<open>models.User\<close> is not among the sources. Section 3 of the
  spec lists its fields: identifier, name, email, is_company flag, hashed password.
\<close>

record User =
  User_id :: int
  User_name :: string
  User_email :: string
  User_is_company :: bool
  User_hashed_password :: string

text \<open>
  Modelled from the spec: the ORM class of a row of the jobs table is not among the
  sources. Section 3 lists its fields. The owner column is read by the handlers as
  \<^verbatim>\<open>job.user_id\<close>; it is nullable here because \<^verbatim>\<open>DMJob\<close> is built without an
  owner in \<^verbatim>\<open>edit_job\<close>.
\<close>

record Job =
  Job_id :: int
  Job_user_id :: "int option"
  Job_title :: string
  Job_description :: string
  Job_salary_from :: int
  Job_salary_to :: int
  Job_is_active :: bool

text \<open>
  Modelled from the spec: \<^verbatim>\<open>api.schemas.job_schemas.SJob\<close>, the request and response
  schema (section 6: title, description, salary_from, salary_to, is_active; a response
  carries the generated identifier).
\<close>

record SJob =
  SJob_id :: "int option"
  SJob_title :: string
  SJob_description :: string
  SJob_salary_from :: int
  SJob_salary_to :: int
  SJob_is_active :: bool

text \<open>
  Modelled from the spec: \<^verbatim>\<open>domain.dm_schemas.DMJob\<close>. The keyword arguments of its
  construction in \<^verbatim>\<open>edit_job\<close> (lines 89-96) give the fields; \<^verbatim>\<open>edit_job\<close> passes
  no \<^verbatim>\<open>user_id\<close>, so that field is optional.
\<close>

record DMJob =
  DMJob_id :: "int option"
  DMJob_user_id :: "int option"
  DMJob_title :: string
  DMJob_description :: string
  DMJob_salary_from :: int
  DMJob_salary_to :: int
  DMJob_is_active :: bool

text \<open>\<^verbatim>\<open>SRemoveJobReport(id=..., message=...)\<close>, as constructed at line 131.\<close>

record SRemoveJobReport =
  SRemoveJobReport_id :: int
  SRemoveJobReport_message :: string

text \<open>
  What a handler can raise: FastAPI's \<^verbatim>\<open>HTTPException(status_code, detail)\<close>, Python's
  \<^verbatim>\<open>AttributeError\<close> (an attribute read on \<^verbatim>\<open>None\<close>), and the validation error of
  \<^verbatim>\<open>SJob.from_orm(None)\<close>. The last two are not caught anywhere in the handlers.
\<close>

datatype exn = HTTPException nat string | AttributeError | ValidationError

text \<open>
  The persistent store seen through the request's session: the users table, the jobs
  table, and the sequence the jobs' identifiers are generated from.
\<close>

record db_state =
  users :: "User list"
  jobs :: "Job list"
  jobs_id_seq :: int

text \<open>A decoded token: the dictionary of its claims.\<close>

type_synonym payload = "string \<rightharpoonup> string"

section \<open>Message texts\<close>

text \<open>
  The detail of \<^verbatim>\<open>cred_exception\<close> (user.py, line 22): the word "Credentials" followed
  by the Russian for "not valid", 22 characters, 31 bytes.
\<close>

definition credentials_not_valid :: string where
  "credentials_not_valid = ''Credentials '' @ map char_of
     [208, 189, 208, 181, 32, 208, 178, 208, 176, 208, 187, 208, 184, 208, 180, 208, 189,
      209, 139 :: nat]"

text \<open>Python's \<^verbatim>\<open>str(n)\<close> for an integer, which \<^verbatim>\<open>"%s" % n\<close> inserts.\<close>

definition digit :: "nat \<Rightarrow> char" where
  "digit d = ''0123456789'' ! d"

fun str_nat :: "nat \<Rightarrow> string" where
  "str_nat n = (if n < 10 then [digit n] else str_nat (n div 10) @ [digit (n mod 10)])"

declare str_nat.simps [simp del]

definition str_int :: "int \<Rightarrow> string" where
  "str_int i = (if i < 0 then ''-'' @ str_nat (nat (- i)) else str_nat (nat i))"

section \<open>User lookup and the authentication dependency\<close>

text \<open>
  Modelled from the spec: \<^verbatim>\<open>user_queries.get_by_email\<close> is not among the sources.
  Section 4.2: it returns a user whose email field equals the input exactly, and absence
  when there is none.
\<close>

definition get_by_email :: "db_state \<Rightarrow> string \<Rightarrow> User option" where
  "get_by_email db email = find (\<lambda>u. User_email u = email) (users db)"

text \<open>\<^verbatim>\<open>cred_exception\<close>, user.py line 22.\<close>

definition cred_exception :: exn where
  "cred_exception = HTTPException 403 credentials_not_valid"

text \<open>
  \<^verbatim>\<open>get_current_user\<close>, user.py lines 9-32. \<^verbatim>\<open>decode_token\<close> (core.security) is not
  among the sources and is a parameter: section 4.1 gives it the type
  \<^verbatim>\<open>string -> Payload | null\<close>. \<^verbatim>\<open>payload.get("sub")\<close> is the lookup of the key.
\<close>

definition get_current_user :: "(string \<Rightarrow> payload option) \<Rightarrow> db_state \<Rightarrow> string \<Rightarrow> exn + User" where
  "get_current_user decode_token db token =
     (case decode_token token of
        None \<Rightarrow> Inl cred_exception
      | Some payload \<Rightarrow>
          (case payload ''sub'' of
             None \<Rightarrow> Inl cred_exception
           | Some email \<Rightarrow>
               (case get_by_email db email of
                  None \<Rightarrow> Inl cred_exception
                | Some user \<Rightarrow> Inr user)))"

text \<open>
  Modelled from the spec: \<^verbatim>\<open>JWTBearer\<close> (core.security), the dependency that takes the
  bearer token from the request, is not among the sources. Section 4.3 says that an
  absent token fails with the same error kind and message as the other failures.
\<close>

definition JWTBearer :: "string option \<Rightarrow> exn + string" where
  "JWTBearer authorization =
     (case authorization of None \<Rightarrow> Inl cred_exception | Some token \<Rightarrow> Inr token)"

text \<open>
  \<^verbatim>\<open>Depends(get_current_user)\<close>: the framework first resolves the token dependency
  of line 11, then calls \<^verbatim>\<open>get_current_user\<close>; an exception of either ends the request.
\<close>

definition resolve_current_user ::
  "(string \<Rightarrow> payload option) \<Rightarrow> db_state \<Rightarrow> string option \<Rightarrow> exn + User" where
  "resolve_current_user decode_token db authorization =
     (case JWTBearer authorization of
        Inl e \<Rightarrow> Inl e
      | Inr token \<Rightarrow> get_current_user decode_token db token)"

section \<open>Job repository\<close>

text \<open>
  Modelled from the spec: \<^verbatim>\<open>infrastructure.repos.RepoJob\<close> is not among the sources.
  Section 4.4 gives its operations. \<^verbatim>\<open>add\<close> inserts a new record and returns the
  persisted representation with its generated identifier, here the next value of the
  table's sequence.
\<close>

definition add :: "db_state \<Rightarrow> DMJob \<Rightarrow> Job \<times> db_state" where
  "add db job =
     (let row = \<lparr>Job_id = jobs_id_seq db + 1,
                 Job_user_id = DMJob_user_id job,
                 Job_title = DMJob_title job,
                 Job_description = DMJob_description job,
                 Job_salary_from = DMJob_salary_from job,
                 Job_salary_to = DMJob_salary_to job,
                 Job_is_active = DMJob_is_active job\<rparr>
      in (row, db\<lparr>jobs := jobs db @ [row], jobs_id_seq := jobs_id_seq db + 1\<rparr>))"

text \<open>Modelled from the spec: \<^verbatim>\<open>get_all\<close> returns every job row, unfiltered.\<close>

definition get_all :: "db_state \<Rightarrow> Job list" where
  "get_all db = jobs db"

text \<open>
  Modelled from the spec: \<^verbatim>\<open>get_by_id\<close> looks a row up by its identifier. Sections 7
  and 9 describe the lookup of an identifier that no row has as a null result, which the
  handlers then use unguarded; \<^const>\<open>None\<close> is that result.
\<close>

definition get_by_id :: "db_state \<Rightarrow> int \<Rightarrow> Job option" where
  "get_by_id db job_id = find (\<lambda>j. Job_id j = job_id) (jobs db)"

text \<open>
  Modelled from the spec: \<^verbatim>\<open>update\<close> overwrites the mutable fields (title,
  description, salary range, is_active) of the row matching the given identifier and
  returns the updated record (no record when no row matches).
\<close>

definition overwrite :: "DMJob \<Rightarrow> Job \<Rightarrow> Job" where
  "overwrite job row =
     row\<lparr>Job_title := DMJob_title job,
         Job_description := DMJob_description job,
         Job_salary_from := DMJob_salary_from job,
         Job_salary_to := DMJob_salary_to job,
         Job_is_active := DMJob_is_active job\<rparr>"

definition update :: "db_state \<Rightarrow> DMJob \<Rightarrow> Job option \<times> db_state" where
  "update db job =
     (let db' = db\<lparr>jobs := map (\<lambda>row. if Some (Job_id row) = DMJob_id job
                                       then overwrite job row else row) (jobs db)\<rparr>
      in (case DMJob_id job of None \<Rightarrow> None | Some i \<Rightarrow> get_by_id db' i, db'))"

text \<open>
  Modelled from the spec: \<^verbatim>\<open>del_by_id\<close> removes the row and returns the identifier
  removed.
\<close>

definition del_by_id :: "db_state \<Rightarrow> int \<Rightarrow> int \<times> db_state" where
  "del_by_id db job_id = (job_id, db\<lparr>jobs := filter (\<lambda>j. Job_id j \<noteq> job_id) (jobs db)\<rparr>)"

section \<open>Schema conversions\<close>

text \<open>
  Modelled from the spec: \<^verbatim>\<open>convert_job_schema_to_dm(user_id, schema)\<close>
  (applications.queries.job_queries) is not among the sources. It builds the domain
  object from the request's fields and the given owner; the identifier is left to the
  repository.
\<close>

definition convert_job_schema_to_dm :: "int \<Rightarrow> SJob \<Rightarrow> DMJob" where
  "convert_job_schema_to_dm user_id job_in_schema =
     \<lparr>DMJob_id = None,
      DMJob_user_id = Some user_id,
      DMJob_title = SJob_title job_in_schema,
      DMJob_description = SJob_description job_in_schema,
      DMJob_salary_from = SJob_salary_from job_in_schema,
      DMJob_salary_to = SJob_salary_to job_in_schema,
      DMJob_is_active = SJob_is_active job_in_schema\<rparr>"

text \<open>\<^verbatim>\<open>SJob.from_orm(row)\<close>: the schema's fields read from the row's attributes.\<close>

definition SJob_from_orm :: "Job \<Rightarrow> SJob" where
  "SJob_from_orm row =
     \<lparr>SJob_id = Some (Job_id row),
      SJob_title = Job_title row,
      SJob_description = Job_description row,
      SJob_salary_from = Job_salary_from row,
      SJob_salary_to = Job_salary_to row,
      SJob_is_active = Job_is_active row\<rparr>"

section \<open>Route handlers\<close>

text \<open>
  The literals of the handlers' messages, cut at their \<^verbatim>\<open>%s\<close> places. In English:
  "To user %s, who is not a company, creating vacancies is not allowed" (line 41).
\<close>

definition msg_place_job_1 :: string where
  "msg_place_job_1 = map char_of
     [208, 159, 208, 190, 208, 187, 209, 140, 208, 183, 208, 190, 208, 178, 208, 176, 209,
      130, 208, 181, 208, 187, 209, 142, 32 :: nat]"

definition msg_place_job_2 :: string where
  "msg_place_job_2 = map char_of
     [44, 32, 208, 189, 208, 181, 32, 209, 143, 208, 178, 208, 187, 209, 143, 209, 142, 209,
      137, 208, 181, 208, 188, 209, 131, 209, 129, 209, 143, 32, 208, 186, 208, 190, 208,
      188, 208, 191, 208, 176, 208, 189, 208, 184, 208, 181, 208, 185, 44, 32, 208, 189,
      208, 181, 32, 209, 128, 208, 176, 208, 183, 209, 128, 208, 181, 209, 136, 208, 181,
      208, 189, 208, 190, 32, 209, 129, 208, 190, 208, 183, 208, 180, 208, 176, 208, 178,
      208, 176, 209, 130, 209, 140, 32, 208, 178, 208, 176, 208, 186, 208, 176, 208, 189,
      209, 129, 208, 184, 208, 184 :: nat]"

text \<open>
  "User %s is not the author of vacancy %s, therefore cannot edit it" (line 101).
\<close>

definition msg_edit_job_1 :: string where
  "msg_edit_job_1 = map char_of
     [208, 159, 208, 190, 208, 187, 209, 140, 208, 183, 208, 190, 208, 178, 208, 176, 209,
      130, 208, 181, 208, 187, 209, 140, 32 :: nat]"

definition msg_edit_job_2 :: string where
  "msg_edit_job_2 = map char_of
     [32, 208, 189, 208, 181, 32, 209, 143, 208, 178, 208, 187, 209, 143, 208, 181, 209, 130,
      209, 129, 209, 143, 32, 208, 176, 208, 178, 209, 130, 208, 190, 209, 128, 208, 190,
      208, 188, 32, 208, 178, 208, 176, 208, 186, 208, 176, 208, 189, 209, 129, 208, 184,
      208, 184, 32 :: nat]"

definition msg_edit_job_3 :: string where
  "msg_edit_job_3 = map char_of
     [44, 32, 208, 191, 208, 190, 209, 141, 209, 130, 208, 190, 208, 188, 209, 131, 32, 208,
      189, 208, 181, 32, 208, 188, 208, 190, 208, 182, 208, 181, 209, 130, 32, 208, 181,
      208, 181, 32, 209, 128, 208, 181, 208, 180, 208, 176, 208, 186, 209, 130, 208, 184,
      209, 128, 208, 190, 208, 178, 208, 176, 209, 130, 209, 140 :: nat]"

text \<open>"Vacancy %s deleted" (line 131).\<close>

definition msg_deleted_1 :: string where
  "msg_deleted_1 = map char_of
     [208, 146, 208, 176, 208, 186, 208, 176, 208, 189, 209, 129, 208, 184, 209, 143,
      32 :: nat]"

definition msg_deleted_2 :: string where
  "msg_deleted_2 = map char_of
     [32, 209, 131, 208, 180, 208, 176, 208, 187, 208, 181, 208, 189, 208, 176 :: nat]"

text \<open>
  "Vacancy %s was not deleted; either it is not found, or the deleting user %s is not
  its author" (line 133). It starts with the same word as the message of line 131.
\<close>

definition msg_not_deleted_2 :: string where
  "msg_not_deleted_2 = map char_of
     [32, 208, 189, 208, 181, 32, 208, 177, 209, 139, 208, 187, 208, 176, 32, 209, 131, 208,
      180, 208, 176, 208, 187, 208, 181, 208, 189, 208, 176, 59, 32, 208, 187, 208, 184,
      208, 177, 208, 190, 32, 208, 190, 208, 189, 208, 176, 32, 208, 189, 208, 181, 32, 208,
      189, 208, 176, 208, 185, 208, 180, 208, 181, 208, 189, 208, 176, 44, 32, 208, 187,
      208, 184, 208, 177, 208, 190, 32, 209, 131, 208, 180, 208, 176, 208, 187, 209, 143,
      209, 142, 209, 137, 208, 184, 208, 185, 32, 208, 191, 208, 190, 208, 187, 209, 140,
      208, 183, 208, 190, 208, 178, 208, 176, 209, 130, 208, 181, 208, 187, 209, 140,
      32 :: nat]"

definition msg_not_deleted_3 :: string where
  "msg_not_deleted_3 = map char_of
     [32, 208, 189, 208, 181, 32, 209, 143, 208, 178, 208, 187, 209, 143, 208, 181, 209, 130,
      209, 129, 209, 143, 32, 208, 181, 208, 181, 32, 208, 176, 208, 178, 209, 130, 208,
      190, 209, 128, 208, 190, 208, 188 :: nat]"

text \<open>\<^verbatim>\<open>place_job\<close>, job_router.py lines 21-44.\<close>

definition place_job :: "SJob \<Rightarrow> User \<Rightarrow> db_state \<Rightarrow> (exn + SJob) \<times> db_state" where
  "place_job job_in_schema current_user db =
     (if User_is_company current_user then
        (let job_dm = convert_job_schema_to_dm (User_id current_user) job_in_schema;
             (res, db') = add db job_dm
         in (Inr (SJob_from_orm res), db'))
      else
        (let msg = msg_place_job_1 @ User_name current_user @ msg_place_job_2
         in (Inl (HTTPException 405 msg), db)))"

text \<open>\<^verbatim>\<open>read_vacancies\<close>, lines 50-63.\<close>

definition read_vacancies :: "db_state \<Rightarrow> (exn + SJob list) \<times> db_state" where
  "read_vacancies db =
     (let orm_objs = get_all db;
          result = map SJob_from_orm orm_objs
      in (Inr result, db))"

text \<open>
  \<^verbatim>\<open>edit_job\<close>, lines 70-105. \<^verbatim>\<open>job_to_edit.user_id\<close> on \<^verbatim>\<open>None\<close> raises
  \<^verbatim>\<open>AttributeError\<close>, and so does no update.
\<close>

definition edit_job :: "int \<Rightarrow> SJob \<Rightarrow> db_state \<Rightarrow> User \<Rightarrow> (exn + SJob) \<times> db_state" where
  "edit_job job_id job_in_schema db current_user =
     (case get_by_id db job_id of
        None \<Rightarrow> (Inl AttributeError, db)
      | Some job_to_edit \<Rightarrow>
          if Job_user_id job_to_edit = Some (User_id current_user) then
            (let job_schema = \<lparr>DMJob_id = Some job_id,
                               DMJob_user_id = None,
                               DMJob_title = SJob_title job_in_schema,
                               DMJob_description = SJob_description job_in_schema,
                               DMJob_salary_from = SJob_salary_from job_in_schema,
                               DMJob_salary_to = SJob_salary_to job_in_schema,
                               DMJob_is_active = SJob_is_active job_in_schema\<rparr>;
                 (updated_job, db') = update db job_schema
             in (case updated_job of
                   None \<Rightarrow> (Inl ValidationError, db')
                 | Some row \<Rightarrow> (Inr (SJob_from_orm row), db')))
          else
            (let msg = msg_edit_job_1 @ User_name current_user @ msg_edit_job_2
                         @ str_int job_id @ msg_edit_job_3
             in (Inl (HTTPException 405 msg), db)))"

text \<open>
  \<^verbatim>\<open>delete_job\<close>, lines 113-137. Python's \<^verbatim>\<open>and\<close> evaluates its right operand only
  when the left one is true, so \<^verbatim>\<open>job_to_del.user_id\<close> is read only for a company.
\<close>

definition delete_job :: "int \<Rightarrow> db_state \<Rightarrow> User \<Rightarrow> (exn + SRemoveJobReport) \<times> db_state" where
  "delete_job job_id db current_user =
     (let job_to_del = get_by_id db job_id in
      if User_is_company current_user then
        (case job_to_del of
           None \<Rightarrow> (Inl AttributeError, db)
         | Some job \<Rightarrow>
             if Job_user_id job = Some (User_id current_user) then
               (let (result, db') = del_by_id db job_id
                in (Inr \<lparr>SRemoveJobReport_id = job_id,
                         SRemoveJobReport_message = msg_deleted_1 @ str_int result @ msg_deleted_2\<rparr>,
                    db'))
             else
               (Inl (HTTPException 400
                      (msg_deleted_1 @ str_int job_id @ msg_not_deleted_2
                         @ User_name current_user @ msg_not_deleted_3)), db))
      else
        (Inl (HTTPException 400
               (msg_deleted_1 @ str_int job_id @ msg_not_deleted_2
                  @ User_name current_user @ msg_not_deleted_3)), db))"

section \<open>The router\<close>

text \<open>
  The four routes of the router (lines 18, 46, 66, 107) with the dependencies their
  signatures declare: \<^verbatim>\<open>place_job\<close>, \<^verbatim>\<open>edit_job\<close> and \<^verbatim>\<open>delete_job\<close> take
  \<^verbatim>\<open>Depends(get_current_user)\<close>, \<^verbatim>\<open>read_vacancies\<close> takes the session only. A request
  is the route with its path and body parameters; the bearer token of its header, when
  there is one, is passed beside it.
\<close>

datatype request =
  POST_job SJob
  | GET_jobs
  | PUT_job int SJob
  | DELETE_job int

datatype response =
  Job_response SJob
  | Jobs_response "SJob list"
  | Remove_response SRemoveJobReport

definition respond :: "('a \<Rightarrow> response) \<Rightarrow> (exn + 'a) \<times> db_state \<Rightarrow> (exn + response) \<times> db_state" where
  "respond f r = (map_sum id f (fst r), snd r)"

definition route ::
  "(string \<Rightarrow> payload option) \<Rightarrow> string option \<Rightarrow> request \<Rightarrow> db_state \<Rightarrow> (exn + response) \<times> db_state" where
  "route decode_token authorization req db =
     (case req of
        GET_jobs \<Rightarrow> respond Jobs_response (read_vacancies db)
      | POST_job job_in_schema \<Rightarrow>
          (case resolve_current_user decode_token db authorization of
             Inl e \<Rightarrow> (Inl e, db)
           | Inr current_user \<Rightarrow> respond Job_response (place_job job_in_schema current_user db))
      | PUT_job job_id job_in_schema \<Rightarrow>
          (case resolve_current_user decode_token db authorization of
             Inl e \<Rightarrow> (Inl e, db)
           | Inr current_user \<Rightarrow>
               respond Job_response (edit_job job_id job_in_schema db current_user))
      | DELETE_job job_id \<Rightarrow>
          (case resolve_current_user decode_token db authorization of
             Inl e \<Rightarrow> (Inl e, db)
           | Inr current_user \<Rightarrow> respond Remove_response (delete_job job_id db current_user)))"

text \<open>
  The status line the framework sends: 200 for a handler that returns (no route sets
  another), the exception's own status for an \<^verbatim>\<open>HTTPException\<close>, 500 for any other
  exception that leaves the handler.
\<close>

definition status_code :: "exn + 'a \<Rightarrow> nat" where
  "status_code r =
     (case r of
        Inr _ \<Rightarrow> 200
      | Inl (HTTPException code _) \<Rightarrow> code
      | Inl AttributeError \<Rightarrow> 500
      | Inl ValidationError \<Rightarrow> 500)"

section \<open>Invariants of the store\<close>

text \<open>
  Every identifier in the jobs table was drawn from the sequence: none exceeds its
  current value. The empty store has the property and every request keeps it.
\<close>

definition wf_db :: "db_state \<Rightarrow> bool" where
  "wf_db db = list_all (\<lambda>j. Job_id j \<le> jobs_id_seq db) (jobs db)"

text \<open>The owner of every persisted job is a company of the users table.\<close>

definition owners_are_companies :: "db_state \<Rightarrow> bool" where
  "owners_are_companies db =
     list_all (\<lambda>j. list_ex (\<lambda>u. Job_user_id j = Some (User_id u) \<and> User_is_company u) (users db))
       (jobs db)"

section \<open>Example data\<close>

text \<open>
  The scenario of section 8 of the spec: company A (id 1), user B (id 2, not a
  company), and job 7 of A; and a token decoder that knows four tokens.
\<close>

definition user_A :: User where
  "user_A = \<lparr>User_id = 1, User_name = ''A'', User_email = ''a@example.com'',
              User_is_company = True, User_hashed_password = ''x''\<rparr>"

definition user_B :: User where
  "user_B = \<lparr>User_id = 2, User_name = ''B'', User_email = ''b@example.com'',
              User_is_company = False, User_hashed_password = ''y''\<rparr>"

definition user_C :: User where
  "user_C = \<lparr>User_id = 3, User_name = ''C'', User_email = ''c@example.com'',
              User_is_company = True, User_hashed_password = ''z''\<rparr>"

definition job_7 :: Job where
  "job_7 = \<lparr>Job_id = 7, Job_user_id = Some 1, Job_title = ''Backend Engineer'',
             Job_description = ''APIs'', Job_salary_from = 100000, Job_salary_to = 150000,
             Job_is_active = True\<rparr>"

definition db_0 :: db_state where
  "db_0 = \<lparr>users = [user_A, user_B, user_C], jobs = [job_7], jobs_id_seq = 7\<rparr>"

definition decode_0 :: "string \<Rightarrow> payload option" where
  "decode_0 token =
     (if token = ''token-A'' then Some [''sub'' \<mapsto> ''a@example.com'']
      else if token = ''token-B'' then Some [''sub'' \<mapsto> ''b@example.com'']
      else if token = ''token-ghost'' then Some [''sub'' \<mapsto> ''ghost@example.com'']
      else if token = ''token-nosub'' then Some [''exp'' \<mapsto> ''0'']
      else None)"

definition body_0 :: SJob where
  "body_0 = \<lparr>SJob_id = None, SJob_title = ''Backend Engineer'', SJob_description = ''APIs'',
              SJob_salary_from = 100000, SJob_salary_to = 150000, SJob_is_active = False\<rparr>"

text \<open>
  The store after A has posted \<^const>\<open>body_0\<close> (job 8), a second request body, and
  job 7 as that body rewrites it.
\<close>

definition job_8 :: Job where
  "job_8 = \<lparr>Job_id = 8, Job_user_id = Some 1, Job_title = ''Backend Engineer'',
             Job_description = ''APIs'', Job_salary_from = 100000, Job_salary_to = 150000,
             Job_is_active = False\<rparr>"

definition db_1 :: db_state where
  "db_1 = \<lparr>users = [user_A, user_B, user_C], jobs = [job_7, job_8], jobs_id_seq = 8\<rparr>"

definition body_1 :: SJob where
  "body_1 = \<lparr>SJob_id = None, SJob_title = ''Staff Engineer'', SJob_description = ''Teams'',
              SJob_salary_from = 120000, SJob_salary_to = 170000, SJob_is_active = True\<rparr>"

definition job_7_edited :: Job where
  "job_7_edited = \<lparr>Job_id = 7, Job_user_id = Some 1, Job_title = ''Staff Engineer'',
             Job_description = ''Teams'', Job_salary_from = 120000, Job_salary_to = 170000,
             Job_is_active = True\<rparr>"

section \<open>Authentication\<close>

lemma find_None_email:
  "find (\<lambda>u. User_email u = e) us = None \<longleftrightarrow> (\<forall>u \<in> set us. User_email u \<noteq> e)"
  by (auto simp: find_None_iff)

lemma find_Some_email:
  "find (\<lambda>u. User_email u = e) us = Some u \<Longrightarrow> u \<in> set us \<and> User_email u = e"
  by (auto simp: find_Some_iff)

lemma get_by_email_None:
  "get_by_email db e = None \<longleftrightarrow> (\<forall>u \<in> set (users db). User_email u \<noteq> e)"
  by (simp add: get_by_email_def find_None_email)

lemma get_by_email_Some:
  "get_by_email db e = Some u \<Longrightarrow> u \<in> set (users db) \<and> User_email u = e"
  unfolding get_by_email_def by (rule find_Some_email)

lemma decode_0_simps:
  "decode_0 ''token-A'' = Some [''sub'' \<mapsto> ''a@example.com'']"
  "decode_0 ''token-ghost'' = Some [''sub'' \<mapsto> ''ghost@example.com'']"
  "decode_0 ''token-nosub'' = Some [''exp'' \<mapsto> ''0'']"
  "decode_0 ''garbage'' = None"
  by (simp_all add: decode_0_def)

text \<open>
  Claim C1. Each of the four authentication failures (no token; a token that does not
  decode; a payload without the subject claim; a subject that is the email of no user)
  raises the same exception, status 403 with the one detail text of line 22, and when
  none of them holds \<^const>\<open>get_current_user\<close> returns a user of the table whose
  email is the token's subject.
\<close>

theorem get_current_user_outcomes:
  "(authorization = None \<longrightarrow>
      resolve_current_user dec db authorization = Inl (HTTPException 403 credentials_not_valid))
   \<and> (authorization = Some token \<longrightarrow>
      resolve_current_user dec db authorization = get_current_user dec db token)
   \<and> (dec token = None \<longrightarrow>
      get_current_user dec db token = Inl (HTTPException 403 credentials_not_valid))
   \<and> (dec token = Some payload \<and> payload ''sub'' = None \<longrightarrow>
      get_current_user dec db token = Inl (HTTPException 403 credentials_not_valid))
   \<and> (dec token = Some payload \<and> payload ''sub'' = Some email
        \<and> (\<forall>u \<in> set (users db). User_email u \<noteq> email) \<longrightarrow>
      get_current_user dec db token = Inl (HTTPException 403 credentials_not_valid))
   \<and> (dec token = Some payload \<and> payload ''sub'' = Some email
        \<and> (\<exists>u \<in> set (users db). User_email u = email) \<longrightarrow>
      (\<exists>user. get_current_user dec db token = Inr user
              \<and> user \<in> set (users db) \<and> User_email user = email))"
proof -
  have absent: "authorization = None \<longrightarrow>
      resolve_current_user dec db authorization = Inl (HTTPException 403 credentials_not_valid)"
    by (simp add: resolve_current_user_def JWTBearer_def cred_exception_def)
  have present: "authorization = Some token \<longrightarrow>
      resolve_current_user dec db authorization = get_current_user dec db token"
    by (simp add: resolve_current_user_def JWTBearer_def)
  have undecodable: "dec token = None \<longrightarrow>
      get_current_user dec db token = Inl (HTTPException 403 credentials_not_valid)"
    by (simp add: get_current_user_def cred_exception_def)
  have no_subject: "dec token = Some payload \<and> payload ''sub'' = None \<longrightarrow>
      get_current_user dec db token = Inl (HTTPException 403 credentials_not_valid)"
    by (simp add: get_current_user_def cred_exception_def)
  have unknown: "dec token = Some payload \<and> payload ''sub'' = Some email
        \<and> (\<forall>u \<in> set (users db). User_email u \<noteq> email) \<longrightarrow>
      get_current_user dec db token = Inl (HTTPException 403 credentials_not_valid)"
  proof
    assume h: "dec token = Some payload \<and> payload ''sub'' = Some email
        \<and> (\<forall>u \<in> set (users db). User_email u \<noteq> email)"
    then have "get_by_email db email = None"
      by (simp add: get_by_email_None)
    with h show "get_current_user dec db token = Inl (HTTPException 403 credentials_not_valid)"
      by (simp add: get_current_user_def cred_exception_def)
  qed
  have known: "dec token = Some payload \<and> payload ''sub'' = Some email
        \<and> (\<exists>u \<in> set (users db). User_email u = email) \<longrightarrow>
      (\<exists>user. get_current_user dec db token = Inr user
              \<and> user \<in> set (users db) \<and> User_email user = email)"
  proof
    assume h: "dec token = Some payload \<and> payload ''sub'' = Some email
        \<and> (\<exists>u \<in> set (users db). User_email u = email)"
    then have "get_by_email db email \<noteq> None"
      by (simp add: get_by_email_None)
    then obtain user where u: "get_by_email db email = Some user"
      by blast
    from u have "user \<in> set (users db) \<and> User_email user = email"
      by (rule get_by_email_Some)
    moreover from h u have "get_current_user dec db token = Inr user"
      by (simp add: get_current_user_def)
    ultimately show "\<exists>user. get_current_user dec db token = Inr user
              \<and> user \<in> set (users db) \<and> User_email user = email"
      by blast
  qed
  from absent present undecodable no_subject unknown known show ?thesis
    by blast
qed

text \<open>The five cases of C1 on the example data.\<close>

theorem get_current_user_outcomes_witness:
  "resolve_current_user decode_0 db_0 None = Inl (HTTPException 403 credentials_not_valid)
   \<and> resolve_current_user decode_0 db_0 (Some ''garbage'') = Inl (HTTPException 403 credentials_not_valid)
   \<and> get_current_user decode_0 db_0 ''token-nosub'' = Inl (HTTPException 403 credentials_not_valid)
   \<and> get_current_user decode_0 db_0 ''token-ghost'' = Inl (HTTPException 403 credentials_not_valid)
   \<and> get_current_user decode_0 db_0 ''token-A'' = Inr user_A"
proof -
  have 1: "resolve_current_user decode_0 db_0 None = Inl (HTTPException 403 credentials_not_valid)"
    using get_current_user_outcomes [of None decode_0 db_0] by simp
  have 2: "resolve_current_user decode_0 db_0 (Some ''garbage'') = Inl (HTTPException 403 credentials_not_valid)"
    using get_current_user_outcomes [of "Some ''garbage''" decode_0 db_0 "''garbage''"]
    by (simp add: decode_0_simps)
  have 3: "get_current_user decode_0 db_0 ''token-nosub'' = Inl (HTTPException 403 credentials_not_valid)"
    using get_current_user_outcomes [of None decode_0 db_0 "''token-nosub''" "[''exp'' \<mapsto> ''0'']"]
    by (simp add: decode_0_simps)
  have 4: "get_current_user decode_0 db_0 ''token-ghost'' = Inl (HTTPException 403 credentials_not_valid)"
    using get_current_user_outcomes [of None decode_0 db_0 "''token-ghost''"
        "[''sub'' \<mapsto> ''ghost@example.com'']" "''ghost@example.com''"]
    by (simp add: decode_0_simps db_0_def user_A_def user_B_def user_C_def)
  have "\<exists>user. get_current_user decode_0 db_0 ''token-A'' = Inr user
          \<and> user \<in> set (users db_0) \<and> User_email user = ''a@example.com''"
    using get_current_user_outcomes [of None decode_0 db_0 "''token-A''"
        "[''sub'' \<mapsto> ''a@example.com'']" "''a@example.com''"]
    by (simp add: decode_0_simps db_0_def user_A_def user_B_def user_C_def)
  then have 5: "get_current_user decode_0 db_0 ''token-A'' = Inr user_A"
    by (auto simp: db_0_def user_A_def user_B_def user_C_def)
  from 1 2 3 4 5 show ?thesis by simp
qed

section \<open>Repository lemmas\<close>

lemma get_by_id_Some:
  "get_by_id db i = Some j \<Longrightarrow> j \<in> set (jobs db) \<and> Job_id j = i"
  by (auto simp: get_by_id_def find_Some_iff)

lemma get_by_id_None:
  "get_by_id db i = None \<longleftrightarrow> (\<forall>j \<in> set (jobs db). Job_id j \<noteq> i)"
  by (auto simp: get_by_id_def find_None_iff)

lemma find_filter_same:
  "find (\<lambda>j. Job_id j = i) (filter (\<lambda>j. Job_id j \<noteq> i) rows) = None"
  by (induction rows) auto

lemma find_filter_other:
  "k \<noteq> i \<Longrightarrow> find (\<lambda>j. Job_id j = k) (filter (\<lambda>j. Job_id j \<noteq> i) rows)
     = find (\<lambda>j. Job_id j = k) rows"
  by (induction rows) auto

lemma Job_id_overwrite: "Job_id (overwrite d row) = Job_id row"
  by (simp add: overwrite_def)

lemma Job_user_id_overwrite: "Job_user_id (overwrite d row) = Job_user_id row"
  by (simp add: overwrite_def)

lemma find_map_overwrite_same:
  "find (\<lambda>j. Job_id j = i) (map (\<lambda>row. if Job_id row = i then overwrite d row else row) rows)
     = map_option (overwrite d) (find (\<lambda>j. Job_id j = i) rows)"
  by (induction rows) (auto simp: Job_id_overwrite)

lemma find_map_overwrite_other:
  "k \<noteq> i \<Longrightarrow>
   find (\<lambda>j. Job_id j = k) (map (\<lambda>row. if Job_id row = i then overwrite d row else row) rows)
     = find (\<lambda>j. Job_id j = k) rows"
  by (induction rows) (auto simp: Job_id_overwrite)

lemma del_by_id_absent: "get_by_id (snd (del_by_id db i)) i = None"
  by (simp add: del_by_id_def get_by_id_def find_filter_same)

lemma update_result:
  "DMJob_id d = Some i \<Longrightarrow>
   update db d = (map_option (overwrite d) (get_by_id db i),
                  db\<lparr>jobs := map (\<lambda>row. if Job_id row = i then overwrite d row else row) (jobs db)\<rparr>)"
  by (simp add: update_def get_by_id_def find_map_overwrite_same Let_def)

lemma str_int_7: "str_int 7 = ''7''"
  by (simp add: str_int_def str_nat.simps digit_def)

lemma get_by_id_db_0: "get_by_id db_0 7 = Some job_7" "get_by_id db_0 99 = None"
  by (simp_all add: get_by_id_def db_0_def job_7_def)

section \<open>Route handlers: outcomes\<close>

text \<open>
  Claim C2, as stated, at a concrete request: user B, who is not a company, deletes job
  99, which no row has. The handler reads no attribute of the absent row; it raises the
  HTTP 400 of line 134, not an unhandled fault.
\<close>

theorem delete_absent_job_counterexample:
  "get_by_id db_0 99 = None
   \<and> fst (delete_job 99 db_0 user_B) \<noteq> Inl AttributeError
   \<and> status_code (fst (delete_job 99 db_0 user_B)) = 400"
  by (simp add: delete_job_def get_by_id_def db_0_def user_B_def job_7_def status_code_def)

text \<open>
  Claim C2, amended. When no row has the identifier, neither handler answers 404:
  \<^const>\<open>edit_job\<close> reads \<^verbatim>\<open>user_id\<close> of the absent row and faults, whoever
  calls; \<^const>\<open>delete_job\<close> does so for a company, and for a caller that is not a
  company raises its HTTP 400. The store is unchanged in each case.
\<close>

theorem absent_job_outcomes:
  assumes "get_by_id db job_id = None"
  shows "edit_job job_id job_in_schema db current_user = (Inl AttributeError, db)
    \<and> (User_is_company current_user \<longrightarrow>
         delete_job job_id db current_user = (Inl AttributeError, db))
    \<and> (\<not> User_is_company current_user \<longrightarrow>
         delete_job job_id db current_user =
           (Inl (HTTPException 400 (msg_deleted_1 @ str_int job_id @ msg_not_deleted_2
                   @ User_name current_user @ msg_not_deleted_3)), db))
    \<and> status_code (fst (edit_job job_id job_in_schema db current_user)) \<noteq> 404
    \<and> status_code (fst (delete_job job_id db current_user)) \<noteq> 404"
  using assms by (simp add: edit_job_def delete_job_def status_code_def)

text \<open>C2 amended, on the example data: job 99 does not exist.\<close>

theorem absent_job_outcomes_witness:
  "edit_job 99 body_0 db_0 user_A = (Inl AttributeError, db_0)
   \<and> delete_job 99 db_0 user_A = (Inl AttributeError, db_0)
   \<and> delete_job 99 db_0 user_B =
        (Inl (HTTPException 400 (msg_deleted_1 @ str_int 99 @ msg_not_deleted_2 @ ''B''
                @ msg_not_deleted_3)), db_0)"
  using absent_job_outcomes [OF get_by_id_db_0(2), of body_0 user_A]
    absent_job_outcomes [OF get_by_id_db_0(2), of body_0 user_B]
  by (simp add: user_A_def user_B_def)

text \<open>
  Claim C3. \<^verbatim>\<open>POST /job\<close> by a user who is not a company raises HTTP 405 with a
  message that holds the user's name, and the store is unchanged; for a company the job
  is added (the new row is appended to the table) and the persisted representation,
  the request's fields with the generated identifier, is returned.
\<close>

theorem place_job_outcomes:
  "(\<not> User_is_company current_user \<longrightarrow>
      place_job job_in_schema current_user db =
        (Inl (HTTPException 405 (msg_place_job_1 @ User_name current_user @ msg_place_job_2)), db))
   \<and> (User_is_company current_user \<longrightarrow>
      (\<exists>row db'. add db (convert_job_schema_to_dm (User_id current_user) job_in_schema) = (row, db')
         \<and> place_job job_in_schema current_user db = (Inr (SJob_from_orm row), db')
         \<and> jobs db' = jobs db @ [row]
         \<and> SJob_from_orm row = job_in_schema\<lparr>SJob_id := Some (Job_id row)\<rparr>))"
  by (simp add: place_job_def add_def Let_def convert_job_schema_to_dm_def SJob_from_orm_def)

text \<open>C3 on the example data: B is refused, A creates a job.\<close>

theorem place_job_outcomes_witness:
  "place_job body_0 user_B db_0 =
     (Inl (HTTPException 405 (msg_place_job_1 @ ''B'' @ msg_place_job_2)), db_0)
   \<and> (\<exists>row db'. place_job body_0 user_A db_0 = (Inr (SJob_from_orm row), db')
         \<and> jobs db' = jobs db_0 @ [row]
         \<and> SJob_from_orm row = body_0\<lparr>SJob_id := Some (Job_id row)\<rparr>)"
  using place_job_outcomes [of user_B body_0 db_0] place_job_outcomes [of user_A body_0 db_0]
  by (auto simp: user_A_def user_B_def)

text \<open>
  Claim C4. \<^verbatim>\<open>PUT /job/{job_id}\<close> on a persisted job whose \<^verbatim>\<open>user_id\<close> is not the
  caller's id raises HTTP 405 with a message that holds the user's name and the job
  id, and the store is unchanged; when it is the caller's id the row is updated and
  the updated record, the request's fields under the job's identifier, is returned
  with status 200.
\<close>

theorem edit_job_outcomes:
  assumes "get_by_id db job_id = Some job"
  shows "(Job_user_id job \<noteq> Some (User_id current_user) \<longrightarrow>
      edit_job job_id job_in_schema db current_user =
        (Inl (HTTPException 405 (msg_edit_job_1 @ User_name current_user @ msg_edit_job_2
                @ str_int job_id @ msg_edit_job_3)), db))
   \<and> (Job_user_id job = Some (User_id current_user) \<longrightarrow>
      (\<exists>row db'. edit_job job_id job_in_schema db current_user = (Inr (SJob_from_orm row), db')
         \<and> SJob_from_orm row =
             \<lparr>SJob_id = Some job_id,
              SJob_title = SJob_title job_in_schema,
              SJob_description = SJob_description job_in_schema,
              SJob_salary_from = SJob_salary_from job_in_schema,
              SJob_salary_to = SJob_salary_to job_in_schema,
              SJob_is_active = SJob_is_active job_in_schema\<rparr>
         \<and> status_code (fst (edit_job job_id job_in_schema db current_user)) = 200
         \<and> get_by_id db' job_id = Some row
         \<and> row = job\<lparr>Job_title := SJob_title job_in_schema,
                      Job_description := SJob_description job_in_schema,
                      Job_salary_from := SJob_salary_from job_in_schema,
                      Job_salary_to := SJob_salary_to job_in_schema,
                      Job_is_active := SJob_is_active job_in_schema\<rparr>))"
proof -
  from assms have id: "Job_id job = job_id"
    by (simp add: get_by_id_Some)
  from assms id show ?thesis
    by (simp add: edit_job_def update_result status_code_def get_by_id_def
        find_map_overwrite_same overwrite_def SJob_from_orm_def)
qed

text \<open>C4 on the example data: B may not edit job 7 of A; A deactivates it.\<close>

theorem edit_job_outcomes_witness:
  "edit_job 7 body_0 db_0 user_B =
     (Inl (HTTPException 405 (msg_edit_job_1 @ ''B'' @ msg_edit_job_2 @ ''7'' @ msg_edit_job_3)), db_0)
   \<and> (\<exists>db'. edit_job 7 body_0 db_0 user_A =
         (Inr \<lparr>SJob_id = Some 7, SJob_title = ''Backend Engineer'', SJob_description = ''APIs'',
               SJob_salary_from = 100000, SJob_salary_to = 150000, SJob_is_active = False\<rparr>, db')
         \<and> status_code (fst (edit_job 7 body_0 db_0 user_A)) = 200
         \<and> get_by_id db' 7 = Some (job_7\<lparr>Job_is_active := False\<rparr>))"
proof -
  have B: "Job_user_id job_7 \<noteq> Some (User_id user_B)"
    by (simp add: job_7_def user_B_def)
  have A: "Job_user_id job_7 = Some (User_id user_A)"
    by (simp add: job_7_def user_A_def)
  from B edit_job_outcomes [OF get_by_id_db_0(1), of user_B body_0]
  have 1: "edit_job 7 body_0 db_0 user_B =
     (Inl (HTTPException 405 (msg_edit_job_1 @ ''B'' @ msg_edit_job_2 @ ''7'' @ msg_edit_job_3)), db_0)"
    by (simp add: user_B_def str_int_7)
  from A edit_job_outcomes [OF get_by_id_db_0(1), of user_A body_0]
  obtain row db' where r: "edit_job 7 body_0 db_0 user_A = (Inr (SJob_from_orm row), db')"
    "SJob_from_orm row =
             \<lparr>SJob_id = Some 7,
              SJob_title = SJob_title body_0,
              SJob_description = SJob_description body_0,
              SJob_salary_from = SJob_salary_from body_0,
              SJob_salary_to = SJob_salary_to body_0,
              SJob_is_active = SJob_is_active body_0\<rparr>"
    "status_code (fst (edit_job 7 body_0 db_0 user_A)) = 200"
    "get_by_id db' 7 = Some row"
    "row = job_7\<lparr>Job_title := SJob_title body_0,
                      Job_description := SJob_description body_0,
                      Job_salary_from := SJob_salary_from body_0,
                      Job_salary_to := SJob_salary_to body_0,
                      Job_is_active := SJob_is_active body_0\<rparr>"
    by blast
  from r(5) have row: "row = job_7\<lparr>Job_is_active := False\<rparr>"
    by (simp add: job_7_def body_0_def)
  from r(1,2) have 2: "edit_job 7 body_0 db_0 user_A =
         (Inr \<lparr>SJob_id = Some 7, SJob_title = ''Backend Engineer'', SJob_description = ''APIs'',
               SJob_salary_from = 100000, SJob_salary_to = 150000, SJob_is_active = False\<rparr>, db')"
    by (simp add: body_0_def)
  from 1 2 r(3,4) row show ?thesis
    by blast
qed

text \<open>
  Claim C5. \<^verbatim>\<open>DELETE /job/{job_id}\<close> by a company that owns the job returns status
  200 with a report that holds the same id and the message "Vacancy <id> deleted" of
  line 131, and afterwards no row of the store has that id.
\<close>

theorem delete_own_job:
  assumes "get_by_id db job_id = Some job"
    and "User_is_company current_user"
    and "Job_user_id job = Some (User_id current_user)"
  shows "\<exists>db'. delete_job job_id db current_user =
           (Inr \<lparr>SRemoveJobReport_id = job_id,
                 SRemoveJobReport_message = msg_deleted_1 @ str_int job_id @ msg_deleted_2\<rparr>, db')
         \<and> status_code (fst (delete_job job_id db current_user)) = 200
         \<and> get_by_id db' job_id = None
         \<and> job_id \<notin> Job_id ` set (get_all db')"
  using assms
  by (auto simp: delete_job_def del_by_id_def status_code_def get_by_id_def find_filter_same
      get_all_def)

text \<open>C5 on the example data: A deletes job 7.\<close>

theorem delete_own_job_witness:
  "\<exists>db'. delete_job 7 db_0 user_A =
           (Inr \<lparr>SRemoveJobReport_id = 7,
                 SRemoveJobReport_message = msg_deleted_1 @ ''7'' @ msg_deleted_2\<rparr>, db')
         \<and> status_code (fst (delete_job 7 db_0 user_A)) = 200
         \<and> get_by_id db' 7 = None
         \<and> 7 \<notin> Job_id ` set (get_all db')"
proof -
  have company: "User_is_company user_A"
    by (simp add: user_A_def)
  have owner: "Job_user_id job_7 = Some (User_id user_A)"
    by (simp add: user_A_def job_7_def)
  from delete_own_job [OF get_by_id_db_0(1) company owner] show ?thesis
    by (simp add: str_int_7)
qed




section \<open>Update: what changes and what does not\<close>

lemma map_overwrite_ids:
  "map Job_id (map (\<lambda>row. if Job_id row = i then overwrite d row else row) rows) = map Job_id rows"
  by (induction rows) (auto simp: Job_id_overwrite)

lemma map_overwrite_owners:
  "map Job_user_id (map (\<lambda>row. if Job_id row = i then overwrite d row else row) rows)
     = map Job_user_id rows"
  by (induction rows) (auto simp: Job_user_id_overwrite)

lemma edit_job_Inr:
  assumes "edit_job job_id job_in_schema db current_user = (Inr result, db')"
  shows "\<exists>old. get_by_id db job_id = Some old
     \<and> Job_user_id old = Some (User_id current_user)
     \<and> db' = db\<lparr>jobs := map (\<lambda>row. if Job_id row = job_id
           then overwrite \<lparr>DMJob_id = Some job_id, DMJob_user_id = None,
                  DMJob_title = SJob_title job_in_schema,
                  DMJob_description = SJob_description job_in_schema,
                  DMJob_salary_from = SJob_salary_from job_in_schema,
                  DMJob_salary_to = SJob_salary_to job_in_schema,
                  DMJob_is_active = SJob_is_active job_in_schema\<rparr> row
           else row) (jobs db)\<rparr>"
  using assms
  by (auto simp: edit_job_def update_result split: option.splits if_splits)

lemma edit_db_1:
  "edit_job 7 body_1 db_1 user_A
     = (Inr (SJob_from_orm job_7_edited), db_1\<lparr>jobs := [job_7_edited, job_8]\<rparr>)"
  by (simp add: edit_job_def get_by_id_def update_def Let_def overwrite_def db_1_def job_7_def
      job_8_def user_A_def body_1_def job_7_edited_def)

text \<open>
  Claim C7. After a successful edit, the row with the given identifier is the old row
  with title, description, salary_from, salary_to and is_active overwritten from the
  request; the identifiers and the owners of all rows are what they were, every row
  with another identifier is unchanged, and so are the users and the sequence.
\<close>

theorem update_frame:
  assumes "edit_job job_id job_in_schema db current_user = (Inr result, db')"
  shows "\<exists>old. get_by_id db job_id = Some old
      \<and> get_by_id db' job_id =
          Some (old\<lparr>Job_title := SJob_title job_in_schema,
                     Job_description := SJob_description job_in_schema,
                     Job_salary_from := SJob_salary_from job_in_schema,
                     Job_salary_to := SJob_salary_to job_in_schema,
                     Job_is_active := SJob_is_active job_in_schema\<rparr>)
      \<and> (\<forall>k. k \<noteq> job_id \<longrightarrow> get_by_id db' k = get_by_id db k)
      \<and> map Job_id (jobs db') = map Job_id (jobs db)
      \<and> map Job_user_id (jobs db') = map Job_user_id (jobs db)
      \<and> (\<forall>n < length (jobs db). Job_id (jobs db ! n) \<noteq> job_id \<longrightarrow> jobs db' ! n = jobs db ! n)
      \<and> users db' = users db
      \<and> jobs_id_seq db' = jobs_id_seq db"
proof -
  from edit_job_Inr [OF assms] obtain old d where
    old: "get_by_id db job_id = Some old" and
    d: "d = \<lparr>DMJob_id = Some job_id, DMJob_user_id = None,
                  DMJob_title = SJob_title job_in_schema,
                  DMJob_description = SJob_description job_in_schema,
                  DMJob_salary_from = SJob_salary_from job_in_schema,
                  DMJob_salary_to = SJob_salary_to job_in_schema,
                  DMJob_is_active = SJob_is_active job_in_schema\<rparr>" and
    db': "db' = db\<lparr>jobs := map (\<lambda>row. if Job_id row = job_id then overwrite d row else row) (jobs db)\<rparr>"
    by blast
  from old db' have same: "get_by_id db' job_id = Some (overwrite d old)"
    by (simp add: get_by_id_def find_map_overwrite_same)
  have other: "\<forall>k. k \<noteq> job_id \<longrightarrow> get_by_id db' k = get_by_id db k"
    using db' by (simp add: get_by_id_def find_map_overwrite_other)
  have ids: "map Job_id (jobs db') = map Job_id (jobs db)"
    using db' by (simp add: map_overwrite_ids del: map_map)
  have owners: "map Job_user_id (jobs db') = map Job_user_id (jobs db)"
    using db' by (simp add: map_overwrite_owners del: map_map)
  have rows: "\<forall>n < length (jobs db). Job_id (jobs db ! n) \<noteq> job_id \<longrightarrow> jobs db' ! n = jobs db ! n"
    using db' by simp
  have rest: "users db' = users db \<and> jobs_id_seq db' = jobs_id_seq db"
    using db' by simp
  from same d have "get_by_id db' job_id =
          Some (old\<lparr>Job_title := SJob_title job_in_schema,
                     Job_description := SJob_description job_in_schema,
                     Job_salary_from := SJob_salary_from job_in_schema,
                     Job_salary_to := SJob_salary_to job_in_schema,
                     Job_is_active := SJob_is_active job_in_schema\<rparr>)"
    by (simp add: overwrite_def)
  with old other ids owners rows rest show ?thesis
    by blast
qed

text \<open>C7 on the example data: A rewrites job 7; job 8 is untouched.\<close>

theorem update_frame_witness:
  "get_by_id db_1 7 = Some job_7
   \<and> get_by_id (db_1\<lparr>jobs := [job_7_edited, job_8]\<rparr>) 7 = Some job_7_edited
   \<and> get_by_id (db_1\<lparr>jobs := [job_7_edited, job_8]\<rparr>) 8 = Some job_8
   \<and> map Job_id [job_7_edited, job_8] = map Job_id (jobs db_1)
   \<and> map Job_user_id [job_7_edited, job_8] = map Job_user_id (jobs db_1)"
proof -
  have old: "get_by_id db_1 7 = Some job_7"
    by (simp add: get_by_id_def db_1_def job_7_def)
  have other: "get_by_id db_1 8 = Some job_8"
    by (simp add: get_by_id_def db_1_def job_7_def job_8_def)
  have fields: "job_7\<lparr>Job_title := SJob_title body_1,
      Job_description := SJob_description body_1,
      Job_salary_from := SJob_salary_from body_1,
      Job_salary_to := SJob_salary_to body_1,
      Job_is_active := SJob_is_active body_1\<rparr> = job_7_edited"
    by (simp add: job_7_def body_1_def job_7_edited_def)
  from update_frame [OF edit_db_1] old other fields show ?thesis
    by (auto simp del: list.map)
qed

section \<open>The router: authentication and the listing\<close>

lemma resolve_current_user_Inr:
  "resolve_current_user dec db a = Inr u \<Longrightarrow> u \<in> set (users db)"
  by (auto simp: resolve_current_user_def JWTBearer_def get_current_user_def
      split: option.splits sum.splits dest: get_by_email_Some)

lemma resolve_current_user_Inl:
  "resolve_current_user dec db a = Inl e \<Longrightarrow> e = HTTPException 403 credentials_not_valid"
  by (auto simp: resolve_current_user_def JWTBearer_def get_current_user_def cred_exception_def
      split: option.splits sum.splits)

lemma resolve_db_0:
  "resolve_current_user decode_0 db_0 (Some ''token-A'') = Inr user_A"
  "resolve_current_user decode_0 db_0 None = Inl (HTTPException 403 credentials_not_valid)"
  by (simp_all add: resolve_current_user_def JWTBearer_def get_current_user_def decode_0_simps
      get_by_email_def db_0_def user_A_def cred_exception_def)

text \<open>
  Claim C8. \<^verbatim>\<open>GET /job/jobs\<close> has no authentication dependency: whatever the
  request's credentials, also none and also those for which every other route answers
  403, it succeeds and returns one record for every persisted row, none filtered out,
  each with the row's identifier, title, description, salary range and is_active flag,
  and leaves the store as it is.
\<close>

theorem read_vacancies_public:
  "route dec authorization GET_jobs db =
     (Inr (Jobs_response
        (map (\<lambda>j. \<lparr>SJob_id = Some (Job_id j),
                     SJob_title = Job_title j,
                     SJob_description = Job_description j,
                     SJob_salary_from = Job_salary_from j,
                     SJob_salary_to = Job_salary_to j,
                     SJob_is_active = Job_is_active j\<rparr>) (jobs db))), db)
   \<and> (\<exists>rows. fst (read_vacancies db) = Inr rows
         \<and> length rows = length (jobs db)
         \<and> set rows = (\<lambda>j. \<lparr>SJob_id = Some (Job_id j),
                               SJob_title = Job_title j,
                               SJob_description = Job_description j,
                               SJob_salary_from = Job_salary_from j,
                               SJob_salary_to = Job_salary_to j,
                               SJob_is_active = Job_is_active j\<rparr>) ` set (jobs db)
         \<and> Job_id ` set (jobs db) = {i. \<exists>r \<in> set rows. SJob_id r = Some i})
   \<and> (\<forall>e. resolve_current_user dec db authorization = Inl e \<longrightarrow>
         e = HTTPException 403 credentials_not_valid
         \<and> (\<forall>req. req \<noteq> GET_jobs \<longrightarrow> route dec authorization req db = (Inl e, db)))"
proof -
  let ?shown = "\<lambda>j. \<lparr>SJob_id = Some (Job_id j),
                     SJob_title = Job_title j,
                     SJob_description = Job_description j,
                     SJob_salary_from = Job_salary_from j,
                     SJob_salary_to = Job_salary_to j,
                     SJob_is_active = Job_is_active j\<rparr>"
  have from_orm: "SJob_from_orm = ?shown"
    by (rule ext) (simp add: SJob_from_orm_def)
  have listing: "read_vacancies db = (Inr (map ?shown (jobs db)), db)"
    by (simp only: read_vacancies_def get_all_def from_orm Let_def)
  have 1: "route dec authorization GET_jobs db = (Inr (Jobs_response (map ?shown (jobs db))), db)"
    by (simp add: route_def respond_def listing)
  have ids: "Job_id ` set (jobs db) = {i. \<exists>r \<in> set (map ?shown (jobs db)). SJob_id r = Some i}"
    by (force simp: image_iff)
  have 2: "\<exists>rows. fst (read_vacancies db) = Inr rows
         \<and> length rows = length (jobs db)
         \<and> set rows = ?shown ` set (jobs db)
         \<and> Job_id ` set (jobs db) = {i. \<exists>r \<in> set rows. SJob_id r = Some i}"
  proof (intro exI conjI)
    show "fst (read_vacancies db) = Inr (map ?shown (jobs db))"
      by (simp only: listing fst_conv)
    show "length (map ?shown (jobs db)) = length (jobs db)"
      by (rule length_map)
    show "set (map ?shown (jobs db)) = ?shown ` set (jobs db)"
      by (rule set_map)
    show "Job_id ` set (jobs db) = {i. \<exists>r \<in> set (map ?shown (jobs db)). SJob_id r = Some i}"
      by (rule ids)
  qed
  have rejected: "\<And>e req. resolve_current_user dec db authorization = Inl e \<Longrightarrow> req \<noteq> GET_jobs
      \<Longrightarrow> route dec authorization req db = (Inl e, db)"
    by (case_tac req) (simp_all add: route_def)
  have 3: "\<forall>e. resolve_current_user dec db authorization = Inl e \<longrightarrow>
         e = HTTPException 403 credentials_not_valid
         \<and> (\<forall>req. req \<noteq> GET_jobs \<longrightarrow> route dec authorization req db = (Inl e, db))"
    using rejected by (auto dest: resolve_current_user_Inl)
  show ?thesis
    by (rule conjI [OF 1 conjI [OF 2 3]])
qed

text \<open>
  C8 on the example data: without a token the listing of the two-row store succeeds
  with both rows' records, and the other routes answer 403.
\<close>

theorem read_vacancies_public_witness:
  "route decode_0 None GET_jobs db_1 =
     (Inr (Jobs_response
        [\<lparr>SJob_id = Some 7, SJob_title = ''Backend Engineer'', SJob_description = ''APIs'',
          SJob_salary_from = 100000, SJob_salary_to = 150000, SJob_is_active = True\<rparr>,
         \<lparr>SJob_id = Some 8, SJob_title = ''Backend Engineer'', SJob_description = ''APIs'',
          SJob_salary_from = 100000, SJob_salary_to = 150000, SJob_is_active = False\<rparr>]), db_1)
   \<and> route decode_0 None (DELETE_job 7) db_0 = (Inl (HTTPException 403 credentials_not_valid), db_0)
   \<and> route decode_0 None (POST_job body_0) db_0 = (Inl (HTTPException 403 credentials_not_valid), db_0)
   \<and> route decode_0 None (PUT_job 7 body_0) db_0 = (Inl (HTTPException 403 credentials_not_valid), db_0)"
proof -
  have rows: "jobs db_1 = [job_7, job_8]"
    by (simp add: db_1_def)
  from read_vacancies_public [of decode_0 None db_1, THEN conjunct1]
  have 1: "route decode_0 None GET_jobs db_1 =
     (Inr (Jobs_response
        [\<lparr>SJob_id = Some 7, SJob_title = ''Backend Engineer'', SJob_description = ''APIs'',
          SJob_salary_from = 100000, SJob_salary_to = 150000, SJob_is_active = True\<rparr>,
         \<lparr>SJob_id = Some 8, SJob_title = ''Backend Engineer'', SJob_description = ''APIs'',
          SJob_salary_from = 100000, SJob_salary_to = 150000, SJob_is_active = False\<rparr>]), db_1)"
    by (simp add: rows job_7_def job_8_def)
  from read_vacancies_public [of decode_0 None db_0, THEN conjunct2, THEN conjunct2] resolve_db_0(2)
  have 2: "\<forall>req. req \<noteq> GET_jobs \<longrightarrow>
      route decode_0 None req db_0 = (Inl (HTTPException 403 credentials_not_valid), db_0)"
    by blast
  from 1 2 show ?thesis
    by simp
qed

section \<open>The owner of a job is a company\<close>

lemma users_place_job: "users (snd (place_job b u db)) = users db"
  by (simp add: place_job_def add_def Let_def)

lemma users_edit_job: "users (snd (edit_job i b db u)) = users db"
  by (simp add: edit_job_def update_def Let_def split: option.splits)

lemma users_delete_job: "users (snd (delete_job i db u)) = users db"
  by (simp add: delete_job_def del_by_id_def Let_def split: option.splits)

lemma users_route: "users (snd (route dec a req db)) = users db"
  by (cases req)
    (simp_all add: route_def respond_def read_vacancies_def users_place_job users_edit_job
      users_delete_job split: sum.splits)

lemma jobs_edit_job:
  "jobs (snd (edit_job i b db u)) = jobs db
   \<or> (\<exists>d. jobs (snd (edit_job i b db u))
          = map (\<lambda>row. if Job_id row = i then overwrite d row else row) (jobs db))"
  by (auto simp: edit_job_def update_def Let_def split: option.splits)

lemma jobs_delete_job:
  "jobs (snd (delete_job i db u)) = jobs db
   \<or> jobs (snd (delete_job i db u)) = filter (\<lambda>j. Job_id j \<noteq> i) (jobs db)"
  by (auto simp: delete_job_def del_by_id_def Let_def split: option.splits)

lemma owners_are_companies_iff:
  "owners_are_companies db \<longleftrightarrow>
     (\<forall>j \<in> set (jobs db). \<exists>u \<in> set (users db). Job_user_id j = Some (User_id u) \<and> User_is_company u)"
  by (simp add: owners_are_companies_def list_all_iff list_ex_iff)

lemma owners_place_job:
  assumes "owners_are_companies db" and "u \<in> set (users db)"
  shows "owners_are_companies (snd (place_job b u db))"
  using assms
  by (auto simp: owners_are_companies_iff place_job_def add_def Let_def convert_job_schema_to_dm_def)

lemma owners_edit_job:
  assumes "owners_are_companies db"
  shows "owners_are_companies (snd (edit_job i b db u))"
  using assms jobs_edit_job [of i b db u]
  by (auto simp: owners_are_companies_iff users_edit_job Job_user_id_overwrite)

lemma owners_delete_job:
  assumes "owners_are_companies db"
  shows "owners_are_companies (snd (delete_job i db u))"
  using assms jobs_delete_job [of i db u]
  by (auto simp: owners_are_companies_iff users_delete_job)

lemma owners_route:
  assumes "owners_are_companies db"
  shows "owners_are_companies (snd (route dec a req db))"
proof (cases req)
  case (POST_job b)
  then show ?thesis
    using assms
    by (auto simp: route_def respond_def owners_place_job split: sum.splits
        dest: resolve_current_user_Inr)
next
  case GET_jobs
  then show ?thesis
    using assms by (simp add: route_def respond_def read_vacancies_def)
next
  case (PUT_job i b)
  then show ?thesis
    using assms by (auto simp: route_def respond_def owners_edit_job split: sum.splits)
next
  case (DELETE_job i)
  then show ?thesis
    using assms by (auto simp: route_def respond_def owners_delete_job split: sum.splits)
qed

lemma route_post_A:
  "route decode_0 (Some ''token-A'') (POST_job body_0) db_0
     = (Inr (Job_response (SJob_from_orm job_8)), db_0\<lparr>jobs := [job_7, job_8], jobs_id_seq := 8\<rparr>)"
proof -
  have "route decode_0 (Some ''token-A'') (POST_job body_0) db_0
      = respond Job_response (place_job body_0 user_A db_0)"
    by (simp add: route_def resolve_db_0)
  also have "\<dots> = (Inr (Job_response (SJob_from_orm job_8)),
      db_0\<lparr>jobs := [job_7, job_8], jobs_id_seq := 8\<rparr>)"
    by (simp add: respond_def place_job_def add_def Let_def convert_job_schema_to_dm_def
        job_8_def body_0_def user_A_def db_0_def)
  finally show ?thesis .
qed

lemma owners_db_0: "owners_are_companies db_0"
  by (simp add: owners_are_companies_def db_0_def job_7_def user_A_def)

text \<open>
  Claim C9. A job created through \<^verbatim>\<open>POST /job\<close> is owned by the user the token
  resolved to, whatever the request body holds, and that user is a company of the users
  table; every request keeps the invariant that each persisted job's owner is a company
  of the users table, and no request changes the users table.
\<close>

theorem job_owner_invariant:
  "(route dec authorization (POST_job job_in_schema) db = (Inr response, db') \<longrightarrow>
      (\<exists>current_user row. resolve_current_user dec db authorization = Inr current_user
         \<and> current_user \<in> set (users db)
         \<and> User_is_company current_user
         \<and> jobs db' = jobs db @ [row]
         \<and> Job_user_id row = Some (User_id current_user)))
   \<and> (owners_are_companies db \<longrightarrow> owners_are_companies (snd (route dec authorization req db)))
   \<and> users (snd (route dec authorization req db)) = users db"
proof -
  have created: "route dec authorization (POST_job job_in_schema) db = (Inr response, db') \<longrightarrow>
      (\<exists>current_user row. resolve_current_user dec db authorization = Inr current_user
         \<and> current_user \<in> set (users db)
         \<and> User_is_company current_user
         \<and> jobs db' = jobs db @ [row]
         \<and> Job_user_id row = Some (User_id current_user))"
  proof
    assume r: "route dec authorization (POST_job job_in_schema) db = (Inr response, db')"
    then obtain u where u: "resolve_current_user dec db authorization = Inr u"
      by (cases "resolve_current_user dec db authorization") (auto simp: route_def)
    with r have p: "respond Job_response (place_job job_in_schema u db) = (Inr response, db')"
      by (simp add: route_def)
    have company: "User_is_company u"
    proof (rule ccontr)
      assume "\<not> User_is_company u"
      with p show False
        by (simp add: respond_def place_job_def)
    qed
    with p have "jobs db' = jobs db @ [fst (add db (convert_job_schema_to_dm (User_id u) job_in_schema))]
        \<and> Job_user_id (fst (add db (convert_job_schema_to_dm (User_id u) job_in_schema)))
            = Some (User_id u)"
      by (auto simp: respond_def place_job_def add_def Let_def convert_job_schema_to_dm_def)
    with u company resolve_current_user_Inr [OF u]
    show "\<exists>current_user row. resolve_current_user dec db authorization = Inr current_user
         \<and> current_user \<in> set (users db)
         \<and> User_is_company current_user
         \<and> jobs db' = jobs db @ [row]
         \<and> Job_user_id row = Some (User_id current_user)"
      by blast
  qed
  from created owners_route [of db dec authorization req] users_route [of dec authorization req db]
  show ?thesis
    by blast
qed

text \<open>C9 on the example data: A posts a job.\<close>

theorem job_owner_invariant_witness:
  "(\<exists>current_user row.
       resolve_current_user decode_0 db_0 (Some ''token-A'') = Inr current_user
       \<and> current_user \<in> set (users db_0)
       \<and> User_is_company current_user
       \<and> [job_7, job_8] = jobs db_0 @ [row]
       \<and> Job_user_id row = Some (User_id current_user))
   \<and> owners_are_companies (snd (route decode_0 (Some ''token-A'') (POST_job body_0) db_0))
   \<and> users (snd (route decode_0 (Some ''token-A'') (POST_job body_0) db_0)) = users db_0"
  using job_owner_invariant [of decode_0 "Some ''token-A''" body_0 db_0
      "Job_response (SJob_from_orm job_8)" "db_0\<lparr>jobs := [job_7, job_8], jobs_id_seq := 8\<rparr>"
      "POST_job body_0"]
    route_post_A owners_db_0
  by simp

section \<open>Lookup after insertion\<close>

lemma find_append_last:
  "find P xs = None \<Longrightarrow> P r \<Longrightarrow> find P (xs @ [r]) = Some r"
  by (induction xs) (auto split: if_splits)

lemma wf_db_iff: "wf_db db \<longleftrightarrow> (\<forall>j \<in> set (jobs db). Job_id j \<le> jobs_id_seq db)"
  by (simp add: wf_db_def list_all_iff)

lemma get_by_id_add:
  assumes "wf_db db"
  shows "get_by_id (snd (add db d)) (Job_id (fst (add db d))) = Some (fst (add db d))"
proof -
  have "find (\<lambda>j. Job_id j = jobs_id_seq db + 1) (jobs db) = None"
    using assms by (auto simp: wf_db_iff find_None_iff)
  then show ?thesis
    by (simp add: add_def Let_def get_by_id_def find_append_last)
qed

lemma wf_db_add: "wf_db db \<Longrightarrow> wf_db (snd (add db d))"
  by (auto simp: wf_db_iff add_def Let_def)

lemma wf_db_0: "wf_db db_0"
  by (simp add: wf_db_def db_0_def job_7_def)

lemma add_db_0: "add db_0 (convert_job_schema_to_dm (User_id user_A) body_0) = (job_8, db_1)"
  by (simp add: add_def Let_def convert_job_schema_to_dm_def db_0_def db_1_def user_A_def
      body_0_def job_8_def)

lemma wf_db_edit_job: "wf_db db \<Longrightarrow> wf_db (snd (edit_job i b db u))"
  using jobs_edit_job [of i b db u]
  by (auto simp: wf_db_iff Job_id_overwrite edit_job_def update_def Let_def split: option.splits)

lemma wf_db_delete_job: "wf_db db \<Longrightarrow> wf_db (snd (delete_job i db u))"
  by (auto simp: wf_db_iff delete_job_def del_by_id_def Let_def split: option.splits)

lemma wf_db_place_job: "wf_db db \<Longrightarrow> wf_db (snd (place_job b u db))"
  by (auto simp: wf_db_iff place_job_def add_def Let_def)

lemma wf_db_route: "wf_db db \<Longrightarrow> wf_db (snd (route dec a req db))"
  by (cases req)
    (auto simp: route_def respond_def read_vacancies_def wf_db_place_job wf_db_edit_job
      wf_db_delete_job split: sum.splits)

text \<open>
  Claim C10. For a job accepted by \<^verbatim>\<open>POST /job\<close>, \<^const>\<open>get_by_id\<close> with the
  generated identifier, right after \<^const>\<open>add\<close>, returns the row that was inserted:
  the row \<^const>\<open>add\<close> returned, whose fields are those of the request and whose
  owner is the caller.
\<close>

theorem get_by_id_after_add:
  assumes "wf_db db" and "User_is_company current_user"
  shows "\<exists>row db'. place_job job_in_schema current_user db = (Inr (SJob_from_orm row), db')
      \<and> add db (convert_job_schema_to_dm (User_id current_user) job_in_schema) = (row, db')
      \<and> get_by_id db' (Job_id row) = Some row
      \<and> SJob_id (SJob_from_orm row) = Some (Job_id row)
      \<and> Job_user_id row = Some (User_id current_user)
      \<and> Job_title row = SJob_title job_in_schema
      \<and> Job_description row = SJob_description job_in_schema
      \<and> Job_salary_from row = SJob_salary_from job_in_schema
      \<and> Job_salary_to row = SJob_salary_to job_in_schema
      \<and> Job_is_active row = SJob_is_active job_in_schema
      \<and> wf_db db'"
proof -
  let ?d = "convert_job_schema_to_dm (User_id current_user) job_in_schema"
  obtain row db' where a: "add db ?d = (row, db')"
    by (cases "add db ?d")
  from assms(2) a have p: "place_job job_in_schema current_user db = (Inr (SJob_from_orm row), db')"
    by (simp add: place_job_def)
  from get_by_id_add [OF assms(1), of ?d] a have g: "get_by_id db' (Job_id row) = Some row"
    by simp
  from wf_db_add [OF assms(1), of ?d] a have w: "wf_db db'"
    by simp
  from a have f: "Job_user_id row = Some (User_id current_user)
      \<and> Job_title row = SJob_title job_in_schema
      \<and> Job_description row = SJob_description job_in_schema
      \<and> Job_salary_from row = SJob_salary_from job_in_schema
      \<and> Job_salary_to row = SJob_salary_to job_in_schema
      \<and> Job_is_active row = SJob_is_active job_in_schema"
    by (auto simp: add_def Let_def convert_job_schema_to_dm_def)
  have "SJob_id (SJob_from_orm row) = Some (Job_id row)"
    by (simp add: SJob_from_orm_def)
  with a p g w f show ?thesis
    by blast
qed

text \<open>C10 on the example data: the job A posts gets the identifier 8.\<close>

theorem get_by_id_after_add_witness:
  "place_job body_0 user_A db_0 = (Inr (SJob_from_orm job_8), db_1)
   \<and> get_by_id db_1 8 = Some job_8
   \<and> SJob_id (SJob_from_orm job_8) = Some 8
   \<and> Job_title job_8 = SJob_title body_0
   \<and> Job_user_id job_8 = Some (User_id user_A)"
proof -
  have company: "User_is_company user_A"
    by (simp add: user_A_def)
  have id: "Job_id job_8 = 8"
    by (simp add: job_8_def)
  from get_by_id_after_add [OF wf_db_0 company, of body_0] add_db_0 id show ?thesis
    by auto
qed

end
